theory Spec2Isabelle
  imports Main "HOL-Library.Char_ord" "HOL-Library.List_Lexorder" "HOL-Library.Sublist"
begin

section \<open>Python values and exceptions\<close>

text \<open>
  The two scripts are Python. A Python \<open>str\<close> is modelled by its UTF-8 encoding, a
  \<^typ>\<open>string\<close>: every separator the scripts look for (\<open>=\<close>, \<open>/\<close>, \<open>.\<close>) is ASCII, and an
  ASCII byte never occurs inside a multi-byte sequence, so splitting and comparing the
  encodings is splitting and comparing the code points.  An exception raised by the code is
  the \<open>Inl\<close> branch of a sum.
\<close>

datatype py_error =
    AttributeError | KeyError | TypeError | ValueError | IndexError
  | UnknownObjectException | GithubException | RequestException | JSONDecodeError
  | UnicodeDecodeError | ParserError | OverflowError | OSError | CalledProcessError

text \<open>
  A decoded JSON document, as \<open>response.json()\<close> and \<open>json.load\<close> return it. \<open>JNull\<close> is
  Python's \<open>None\<close>; \<open>JObj\<close> lists the keys of the \<open>dict\<close> in insertion order, each once.
  The payload of a float is left open (\<open>'f\<close>).
\<close>

datatype 'f json =
    JNull | JBool bool | JInt int | JFloat 'f | JStr string
  | JList "'f json list" | JObj "(string \<times> 'f json) list"

text \<open>\<open>x.get(key)\<close>: only a \<open>dict\<close> has the method.\<close>

fun py_get :: "'f json \<Rightarrow> string \<Rightarrow> py_error + 'f json" where
  "py_get (JObj kvs) key = Inr (case map_of kvs key of None \<Rightarrow> JNull | Some v \<Rightarrow> v)"
| "py_get _ key = Inl AttributeError"

text \<open>\<open>x[key]\<close> with a string key.\<close>

fun py_getitem :: "'f json \<Rightarrow> string \<Rightarrow> py_error + 'f json" where
  "py_getitem (JObj kvs) key = (case map_of kvs key of None \<Rightarrow> Inl KeyError | Some v \<Rightarrow> Inr v)"
| "py_getitem _ key = Inl TypeError"

text \<open>The code points of a string, each as its own UTF-8 string.\<close>

definition utf8_len :: "char \<Rightarrow> nat" where
  "utf8_len c = (if of_char c < (0x80::nat) then 1 else if of_char c < (0xE0::nat) then 2
                 else if of_char c < (0xF0::nat) then 3 else 4)"

fun code_points :: "nat \<Rightarrow> string \<Rightarrow> string \<Rightarrow> string list" where
  "code_points n cur [] = (if cur = [] then [] else [cur])"
| "code_points n cur (c # s) =
     (if n = 0 then (if cur = [] then [] else [cur]) @ code_points (utf8_len c - 1) [c] s
      else code_points (n - 1) (cur @ [c]) s)"

text \<open>\<open>for item in x\<close>: a list yields its elements, a \<open>dict\<close> its keys, a \<open>str\<close> its
  characters; nothing else is iterable.\<close>

fun py_iter :: "'f json \<Rightarrow> py_error + 'f json list" where
  "py_iter (JList xs) = Inr xs"
| "py_iter (JObj kvs) = Inr (map (\<lambda>kv. JStr (fst kv)) kvs)"
| "py_iter (JStr s) = Inr (map JStr (code_points 0 [] s))"
| "py_iter _ = Inl TypeError"

text \<open>\<open>s.split(sep)\<close> for a one-character separator: never empty.\<close>

fun split_acc :: "char \<Rightarrow> string \<Rightarrow> string \<Rightarrow> string list" where
  "split_acc sep cur [] = [cur]"
| "split_acc sep cur (c # s) =
     (if c = sep then cur # split_acc sep [] s else split_acc sep (cur @ [c]) s)"

definition py_split :: "char \<Rightarrow> string \<Rightarrow> string list" where
  "py_split sep s = split_acc sep [] s"

text \<open>\<open>s.split(sep, 1)\<close>: at most one split, at the first separator.\<close>

definition py_split1 :: "char \<Rightarrow> string \<Rightarrow> string list" where
  "py_split1 sep s =
     (case dropWhile (\<lambda>c. c \<noteq> sep) s of
        [] \<Rightarrow> [s]
      | _ # rest \<Rightarrow> [takeWhile (\<lambda>c. c \<noteq> sep) s, rest])"

text \<open>\<open>xs[-1]\<close>.\<close>

definition py_last :: "'a list \<Rightarrow> py_error + 'a" where
  "py_last xs = (if xs = [] then Inl IndexError else Inr (last xs))"

text \<open>
  \<open>s.splitlines()\<close>. The line boundaries of Python are \<open>\n\<close>, \<open>\r\<close>, \<open>\r\n\<close>, \<open>\v\<close>, \<open>\f\<close>,
  \<open>\x1c\<close>, \<open>\x1d\<close>, \<open>\x1e\<close>, U+0085, U+2028 and U+2029; the last three are the byte
  sequences \<open>C2 85\<close>, \<open>E2 80 A8\<close> and \<open>E2 80 A9\<close>. \<open>linebreak s\<close> is the length of the
  boundary \<open>s\<close> starts with, 0 when it starts with none.
\<close>

definition linebreak :: "string \<Rightarrow> nat" where
  "linebreak s =
     (if take 2 s = [CHR 0x0D, CHR 0x0A] then 2
      else if take 1 s \<in> {[CHR 0x0A], [CHR 0x0D], [CHR 0x0B], [CHR 0x0C],
                            [CHR 0x1C], [CHR 0x1D], [CHR 0x1E]} then 1
      else if take 2 s = [CHR 0xC2, CHR 0x85] then 2
      else if take 3 s = [CHR 0xE2, CHR 0x80, CHR 0xA8] then 3
      else if take 3 s = [CHR 0xE2, CHR 0x80, CHR 0xA9] then 3
      else 0)"

function splitlines_acc :: "string \<Rightarrow> string \<Rightarrow> string list" where
  "splitlines_acc cur [] = (if cur = [] then [] else [cur])"
| "splitlines_acc cur (c # s) =
     (if linebreak (c # s) = 0 then splitlines_acc (cur @ [c]) s
      else cur # splitlines_acc [] (drop (linebreak (c # s) - 1) s))"
  by pat_completeness auto
termination
  by (relation "measure (\<lambda>(cur, s). length s)") auto

definition splitlines :: "string \<Rightarrow> string list" where
  "splitlines s = splitlines_acc [] s"

section \<open>build.py: the forge\<close>

text \<open>
  What \<open>repo.get_contents(path)\<close> returns: a file, with the result of
  \<open>decoded_content.decode("utf-8")\<close> (\<open>None\<close> where the bytes are not UTF-8 and decoding
  raises) and its \<open>download_url\<close>, or a list when the path is a directory. A missing path
  raises \<open>UnknownObjectException\<close>.
\<close>

datatype content = ContentFile "string option" string | ContentList

text \<open>A PyGithub \<open>Repository\<close>, with the attributes and methods build.py uses.
  \<open>get_license\<close> is the outcome of \<open>repo.get_license().license.spdx_id\<close>.\<close>

record Repository =
  owner_login :: string
  name :: string
  ssh_url :: string
  clone_url :: string
  html_url :: string
  has_issues :: bool
  get_contents :: "string \<Rightarrow> py_error + content"
  get_license :: "py_error + string"

text \<open>
  What \<open>requests.post\<close> does with a query: it raises, or it returns a response with its
  \<open>ok\<close> flag and the outcome of \<open>response.json()\<close>.
\<close>

datatype 'f http_outcome = Raises py_error | Response bool "py_error + 'f json"

text \<open>
  The forge as the client with its token sees it: \<open>post\<close> answers the GraphQL endpoint for a
  query text; \<open>get_user\<close> is \<open>get_user(user_name).get_repos()\<close>, which raises, or
  enumerates repositories and then ends or raises.
\<close>

record 'f forge =
  post :: "string \<Rightarrow> 'f http_outcome"
  get_user :: "string \<Rightarrow> py_error + (Repository list \<times> py_error option)"

subsection \<open>GitHubGraphQL\<close>

definition graphql_query :: "'f forge \<Rightarrow> string \<Rightarrow> py_error + 'f json" where
  "graphql_query w query =
     (case post w query of
        Raises e \<Rightarrow> Inl e
      | Response ok body \<Rightarrow> if ok then body else Inr JNull)"

definition repository_query :: "string \<Rightarrow> string \<Rightarrow> string \<Rightarrow> string" where
  "repository_query owner rname query =
     ''query { repository('' @
       (''owner: '' @ [CHR 0x22] @ owner @ [CHR 0x22] @ '', name: '' @ [CHR 0x22] @ rname @ [CHR 0x22]) @
     '') { '' @ query @ '' } }''"

definition query_repository ::
  "'f forge \<Rightarrow> string \<Rightarrow> string \<Rightarrow> string \<Rightarrow> py_error + 'f json" where
  "query_repository w owner rname query =
     (case graphql_query w (repository_query owner rname query) of
        Inl e \<Rightarrow> Inl e
      | Inr result \<Rightarrow>
          (case py_get result ''data'' of
             Inl e \<Rightarrow> if e = AttributeError then Inr JNull else Inl e
           | Inr data \<Rightarrow>
               (case py_get data ''repository'' of
                  Inl e \<Rightarrow> if e = AttributeError then Inr JNull else Inl e
                | Inr repository \<Rightarrow> Inr repository)))"

text \<open>\<open>x.split("/")\<close>: a method of \<open>str\<close> only.\<close>

fun str_split :: "'f json \<Rightarrow> char \<Rightarrow> py_error + string list" where
  "str_split (JStr s) sep = Inr (py_split sep s)"
| "str_split _ sep = Inl AttributeError"

text \<open>The loop of \<open>get_sponsor_url\<close> over \<open>funding_links\<close>, \<open>links\<close> growing at its end.\<close>

fun sponsor_links :: "'f json list \<Rightarrow> 'f json list \<Rightarrow> py_error + 'f json list" where
  "sponsor_links links [] = Inr links"
| "sponsor_links links (item # items) =
     (case py_getitem item ''platform'' of
        Inl e \<Rightarrow> Inl e
      | Inr platform \<Rightarrow>
          if platform = JStr ''GITHUB'' then
            (case py_getitem item ''url'' of
               Inl e \<Rightarrow> Inl e
             | Inr url \<Rightarrow>
                 (case str_split url (CHR ''/'') of
                    Inl e \<Rightarrow> Inl e
                  | Inr parts \<Rightarrow>
                      (case py_last parts of
                         Inl e \<Rightarrow> Inl e
                       | Inr seg \<Rightarrow>
                           sponsor_links
                             (links @ [JStr (''https://github.com/sponsors/'' @ seg)]) items)))
          else
            (case py_getitem item ''url'' of
               Inl e \<Rightarrow> Inl e
             | Inr url \<Rightarrow> sponsor_links (links @ [url]) items))"

definition get_sponsor_url :: "'f forge \<Rightarrow> string \<Rightarrow> string \<Rightarrow> py_error + 'f json list" where
  "get_sponsor_url w owner rname =
     (case query_repository w owner rname ''fundingLinks { platform url }'' of
        Inl e \<Rightarrow> Inl e
      | Inr repository \<Rightarrow>
          if repository = JNull then Inr []
          else (case py_getitem repository ''fundingLinks'' of
                  Inl e \<Rightarrow> Inl e
                | Inr funding_links \<Rightarrow>
                    (case py_iter funding_links of
                       Inl e \<Rightarrow> Inl e
                     | Inr items \<Rightarrow> sponsor_links [] items)))"

definition get_homepage_url :: "'f forge \<Rightarrow> string \<Rightarrow> string \<Rightarrow> py_error + 'f json" where
  "get_homepage_url w owner rname =
     (case query_repository w owner rname ''homepageUrl'' of
        Inl e \<Rightarrow> Inl e
      | Inr repository \<Rightarrow>
          if repository = JNull then Inr JNull
          else (case py_getitem repository ''homepageUrl'' of
                  Inl e \<Rightarrow> Inl e
                | Inr homepage_url \<Rightarrow>
                    if homepage_url \<noteq> JStr [] then Inr homepage_url else Inr JNull))"



subsection \<open>GithubApi\<close>

text \<open>A module record and the catalog \<open>_config\<close>.\<close>

record 'f metadata =
  license :: string
  homepage :: "'f json"
  source :: string
  donate :: "'f json"
  support :: string

record 'f module =
  id_str :: string
  kind :: string
  provider :: string
  changelog :: string
  metadata :: "'f metadata"

record 'f config =
  log :: "(string \<times> string) list"
  repository :: "(string \<times> string) list"
  modules :: "'f module list"

text \<open>\<open>GithubApi.get_license\<close>; the name without suffix is the method of the repository.\<close>

definition get_license_id :: "Repository \<Rightarrow> py_error + string" where
  "get_license_id repo =
     (case get_license repo of
        Inl e \<Rightarrow> if e = UnknownObjectException then Inr [] else Inl e
      | Inr spdx_id \<Rightarrow> if spdx_id = ''NOASSERTION'' then Inr [] else Inr spdx_id)"

definition get_changelog :: "Repository \<Rightarrow> py_error + string" where
  "get_changelog repo =
     (case get_contents repo ''changelog.md'' of
        Inl e \<Rightarrow> if e = UnknownObjectException then Inr [] else Inl e
      | Inr (ContentFile text url) \<Rightarrow> Inr url
      | Inr ContentList \<Rightarrow> Inl AttributeError)"

text \<open>The loop of \<open>get_module_prop\<close> over the lines; unpacking \<open>key, value\<close> needs exactly
  two parts.\<close>

fun prop_lines :: "(string \<rightharpoonup> string) \<Rightarrow> string list \<Rightarrow> py_error + (string \<rightharpoonup> string)" where
  "prop_lines module_prop [] = Inr module_prop"
| "prop_lines module_prop (line # lines) =
     (if CHR ''='' \<notin> set line then prop_lines module_prop lines
      else (case py_split1 (CHR ''='') line of
              [key, val] \<Rightarrow> prop_lines (module_prop(key \<mapsto> val)) lines
            | _ \<Rightarrow> Inl ValueError))"

definition parse_prop :: "string \<Rightarrow> py_error + (string \<rightharpoonup> string)" where
  "parse_prop prop = prop_lines Map.empty (splitlines prop)"

definition get_module_prop :: "Repository \<Rightarrow> py_error + (string \<rightharpoonup> string) option" where
  "get_module_prop repo =
     (case (case get_contents repo ''module.prop'' of
              Inl e \<Rightarrow> Inl e
            | Inr ContentList \<Rightarrow> Inl AttributeError
            | Inr (ContentFile text url) \<Rightarrow>
                (case text of None \<Rightarrow> Inl UnicodeDecodeError | Some prop \<Rightarrow> parse_prop prop)) of
        Inl e \<Rightarrow> if e = UnknownObjectException then Inr None else Inl e
      | Inr module_prop \<Rightarrow> Inr (Some module_prop))"

text \<open>\<open>module_prop.get("updateJson")\<close> as a condition: a non-empty string.\<close>

definition truthy :: "string option \<Rightarrow> bool" where
  "truthy v = (case v of None \<Rightarrow> False | Some s \<Rightarrow> s \<noteq> [])"

text \<open>\<open>module_prop["id"]\<close>.\<close>

definition prop_item :: "(string \<rightharpoonup> string) \<Rightarrow> string \<Rightarrow> py_error + string" where
  "prop_item module_prop key = (case module_prop key of None \<Rightarrow> Inl KeyError | Some v \<Rightarrow> Inr v)"

definition generate_module :: "'f forge \<Rightarrow> Repository \<Rightarrow> py_error + 'f module option" where
  "generate_module w repo =
     (case get_module_prop repo of
        Inl e \<Rightarrow> Inl e
      | Inr None \<Rightarrow> Inr None
      | Inr (Some module_prop) \<Rightarrow>
          (case (if truthy (module_prop ''updateJson'')
                 then (case prop_item module_prop ''updateJson'' of
                         Inl e \<Rightarrow> Inl e
                       | Inr v \<Rightarrow> Inr (v, [], ''update-json''))
                 else (case get_changelog repo of
                         Inl e \<Rightarrow> Inl e
                       | Inr c \<Rightarrow> Inr (ssh_url repo, c, ''git''))) of
             Inl e \<Rightarrow> Inl e
           | Inr (provider_v, changelog_v, kind_v) \<Rightarrow>
               (let issues = (if has_issues repo then html_url repo @ ''/issues'' else [])
                in case get_sponsor_url w (owner_login repo) (name repo) of
                     Inl e \<Rightarrow> Inl e
                   | Inr donate_urls \<Rightarrow>
                       (let donate_v = (if length donate_urls = 0 then JStr []
                                        else donate_urls ! 0)
                        in case get_homepage_url w (owner_login repo) (name repo) of
                             Inl e \<Rightarrow> Inl e
                           | Inr hp \<Rightarrow>
                               (let homepage_v = (if hp = JNull then JStr [] else hp)
                                in case prop_item module_prop ''id'' of
                                     Inl e \<Rightarrow> Inl e
                                   | Inr id_v \<Rightarrow>
                                       (case get_license_id repo of
                                          Inl e \<Rightarrow> Inl e
                                        | Inr license_v \<Rightarrow>
                                            Inr (Some
                                              \<lparr>id_str = id_v, kind = kind_v,
                                               provider = provider_v,
                                               changelog = changelog_v,
                                               metadata =
                                                 \<lparr>license = license_v,
                                                  homepage = homepage_v,
                                                  source = clone_url repo,
                                                  donate = donate_v,
                                                  support = issues\<rparr>\<rparr>)))))))"

text \<open>The loop of \<open>generate_modules\<close>; the catalog is stored only after the enumeration
  has ended.\<close>

fun collect_modules ::
  "'f forge \<Rightarrow> 'f module list \<Rightarrow> Repository list \<Rightarrow> py_error + 'f module list" where
  "collect_modules w mods [] = Inr mods"
| "collect_modules w mods (repo # repos) =
     (case generate_module w repo of
        Inl e \<Rightarrow> Inl e
      | Inr None \<Rightarrow> collect_modules w mods repos
      | Inr (Some m) \<Rightarrow> collect_modules w (mods @ [m]) repos)"

definition generate_modules :: "'f forge \<Rightarrow> string \<Rightarrow> py_error + 'f config" where
  "generate_modules w user_name =
     (case get_user w user_name of
        Inl e \<Rightarrow> Inl e
      | Inr (repos, failure) \<Rightarrow>
          (case collect_modules w [] repos of
             Inl e \<Rightarrow> Inl e
           | Inr mods \<Rightarrow>
               (case failure of
                  Some e \<Rightarrow> Inl e
                | None \<Rightarrow> Inr \<lparr>log = [], repository = [], modules = mods\<rparr>)))"

section \<open>git-commit.py: the maintenance workflow\<close>

text \<open>
  The working directory holds regular files and directories; each has the size \<open>stat\<close>
  reports, and a directory has its entries, by name.
\<close>

datatype node = File nat | Dir nat "(string \<times> node) list"

fun st_size :: "node \<Rightarrow> nat" where
  "st_size (File n) = n"
| "st_size (Dir n entries) = n"

fun is_dir :: "node \<Rightarrow> bool" where
  "is_dir (File n) = False"
| "is_dir (Dir n entries) = True"

fun entries_of :: "node \<Rightarrow> (string \<times> node) list" where
  "entries_of (File n) = []"
| "entries_of (Dir n entries) = entries"

text \<open>
  The two patterns of the script, \<open>[!.]*\<close> and \<open>*.zip\<close>, and how \<open>pathlib\<close> matches a name
  against one: \<open>*\<close> is any run of characters (a leading dot too), \<open>[!c]\<close> one character
  other than \<open>c\<close>. A pattern that ends in \<open>/\<close> selects directories only.
\<close>

datatype glob_item = Star | NotChar char | Lit char

fun glob_match :: "glob_item list \<Rightarrow> string \<Rightarrow> bool" where
  "glob_match [] s = (s = [])"
| "glob_match (Star # ps) [] = glob_match ps []"
| "glob_match (Star # ps) (c # s) = (glob_match ps (c # s) \<or> glob_match (Star # ps) s)"
| "glob_match (Lit d # ps) [] = False"
| "glob_match (Lit d # ps) (c # s) = (c = d \<and> glob_match ps s)"
| "glob_match (NotChar d # ps) [] = False"
| "glob_match (NotChar d # ps) (c # s) = (c \<noteq> d \<and> glob_match ps s)"

definition glob :: "glob_item list \<Rightarrow> bool \<Rightarrow> node \<Rightarrow> (string \<times> node) list" where
  "glob pat dirs_only d =
     filter (\<lambda>entry. glob_match pat (fst entry) \<and> (dirs_only \<longrightarrow> is_dir (snd entry)))
       (entries_of d)"

definition GITHUB_MAX_SIZE :: nat where
  "GITHUB_MAX_SIZE = 50 * 1024 * 1024"

fun skip_files :: "(string \<times> node) list \<Rightarrow> bool" where
  "skip_files [] = False"
| "skip_files (file # files) =
     (if st_size (snd file) \<ge> GITHUB_MAX_SIZE then True else skip_files files)"

definition skip_it :: "node \<Rightarrow> bool" where
  "skip_it module_dir = skip_files (glob (Star # map Lit ''.zip'') False module_dir)"

text \<open>
  The working tree: the \<open>modules\<close> directory and what opening and loading
  \<open>json/modules.json\<close> gives. What the script does to the outside is a list of events.
  A subprocess run with \<open>check=True\<close> raises or leaves a working tree behind.
\<close>

record 'f worktree =
  modules_dir :: node
  modules_json :: "py_error + 'f json"

datatype event = Rmtree string | Run "string list"

type_synonym 'f subprocess = "string list \<Rightarrow> 'f worktree \<Rightarrow> py_error + 'f worktree"

fun remove_dirs :: "(string \<times> node) list \<Rightarrow> string list" where
  "remove_dirs [] = []"
| "remove_dirs (module_dir # dirs) =
     (if skip_it (snd module_dir) then fst module_dir # remove_dirs dirs
      else remove_dirs dirs)"

definition removed :: "'f worktree \<Rightarrow> string list" where
  "removed t = remove_dirs (sort_key fst (glob [NotChar (CHR ''.''), Star] True (modules_dir t)))"

text \<open>\<open>shutil.rmtree\<close> of the named entries of a directory; it is taken to delete what it
  is given (the script passes \<open>ignore_errors=True\<close>, so a failure would go unseen).\<close>

definition rmtree :: "string list \<Rightarrow> node \<Rightarrow> node" where
  "rmtree names d =
     (case d of
        File n \<Rightarrow> File n
      | Dir n entries \<Rightarrow> Dir n (filter (\<lambda>entry. fst entry \<notin> set names) entries))"

definition remove :: "'f worktree \<Rightarrow> event list \<times> 'f worktree" where
  "remove t = (map Rmtree (removed t), t\<lparr>modules_dir := rmtree (removed t) (modules_dir t)\<rparr>)"

definition upgrade :: "'f subprocess \<Rightarrow> 'f worktree \<Rightarrow> event list \<times> (py_error + 'f worktree)" where
  "upgrade run t =
     ([Run [''mrepo'', ''upgrade'', ''--pretty'']], run [''mrepo'', ''upgrade'', ''--pretty''] t)"

definition add :: "'f subprocess \<Rightarrow> 'f worktree \<Rightarrow> event list \<times> (py_error + 'f worktree)" where
  "add run t = ([Run [''git'', ''add'', ''--all'']], run [''git'', ''add'', ''--all''] t)"

text \<open>
  The arithmetic and the clock of Python that \<open>commit\<close> uses: \<open>int / int\<close>, \<open>float / int\<close>, and
  \<open>str(datetime.fromtimestamp(x, UTC))\<close>.
\<close>

record 'f pytime =
  int_truediv :: "int \<Rightarrow> int \<Rightarrow> py_error + 'f"
  float_truediv :: "'f \<Rightarrow> int \<Rightarrow> py_error + 'f"
  utc_str :: "'f \<Rightarrow> py_error + string"

text \<open>\<open>x / d\<close> for a decoded JSON value \<open>x\<close>: numbers only (\<open>bool\<close> is an \<open>int\<close>).\<close>

fun truediv :: "'f pytime \<Rightarrow> 'f json \<Rightarrow> int \<Rightarrow> py_error + 'f" where
  "truediv lib (JInt n) d = int_truediv lib n d"
| "truediv lib (JBool b) d = int_truediv lib (if b then 1 else 0) d"
| "truediv lib (JFloat x) d = float_truediv lib x d"
| "truediv lib _ d = Inl TypeError"

definition commit ::
  "'f pytime \<Rightarrow> 'f subprocess \<Rightarrow> 'f worktree \<Rightarrow> event list \<times> (py_error + 'f worktree)" where
  "commit lib run t =
     (case modules_json t of
        Inl e \<Rightarrow> ([], Inl e)
      | Inr mods \<Rightarrow>
          (case py_getitem mods ''timestamp'' of
             Inl e \<Rightarrow> ([], Inl e)
           | Inr ts \<Rightarrow>
               (case truediv lib ts 1000 of
                  Inl e \<Rightarrow> ([], Inl e)
                | Inr timestamp \<Rightarrow>
                    (case utc_str lib timestamp of
                       Inl e \<Rightarrow> ([], Inl e)
                     | Inr time \<Rightarrow>
                         (let msg = ''Update by CLI ('' @ time @ '')''
                          in ([Run [''git'', ''commit'', ''-m'', msg]],
                              run [''git'', ''commit'', ''-m'', msg] t))))))"

text \<open>\<open>Main.exec\<close>: remove, upgrade, add, commit; an exception ends the run.\<close>

definition exec ::
  "'f pytime \<Rightarrow> 'f subprocess \<Rightarrow> 'f worktree \<Rightarrow> event list \<times> (py_error + 'f worktree)" where
  "exec lib run t =
     (case remove t of
        (ev1, t1) \<Rightarrow>
          (case upgrade run t1 of
             (ev2, Inl e) \<Rightarrow> (ev1 @ ev2, Inl e)
           | (ev2, Inr t2) \<Rightarrow>
               (case add run t2 of
                  (ev3, Inl e) \<Rightarrow> (ev1 @ ev2 @ ev3, Inl e)
                | (ev3, Inr t3) \<Rightarrow>
                    (case commit lib run t3 of
                       (ev4, r) \<Rightarrow> (ev1 @ ev2 @ ev3 @ ev4, r)))))"

section \<open>Auxiliary notions\<close>

text \<open>What one line of a descriptor does to the mapping.\<close>

definition put_line :: "(string \<rightharpoonup> string) \<Rightarrow> string \<Rightarrow> (string \<rightharpoonup> string)" where
  "put_line m line =
     (if CHR ''='' \<in> set line
      then m(takeWhile (\<lambda>c. c \<noteq> CHR ''='') line \<mapsto> tl (dropWhile (\<lambda>c. c \<noteq> CHR ''='') line))
      else m)"

text \<open>A repository whose only file is a descriptor.\<close>

definition descriptor_repo :: "string \<Rightarrow> Repository" where
  "descriptor_repo prop =
     \<lparr>owner_login = ''octo'', name = ''mod'', ssh_url = ''git@github.com:octo/mod.git'',
      clone_url = ''https://github.com/octo/mod.git'', html_url = ''https://github.com/octo/mod'',
      has_issues = True,
      get_contents = (\<lambda>path. if path = ''module.prop''
                               then Inr (ContentFile (Some prop) ''https://raw.example/module.prop'')
                               else Inl UnknownObjectException),
      get_license = Inr ''MIT''\<rparr>"

text \<open>A repository with a descriptor and, optionally, a changelog; a repository with
  neither; and a forge that has both, with the funding links of the first.\<close>

definition module_repo :: "string \<Rightarrow> string option \<Rightarrow> Repository" where
  "module_repo prop log_url =
     \<lparr>owner_login = ''octo'', name = ''mod'', ssh_url = ''git@github.com:octo/mod.git'',
      clone_url = ''https://github.com/octo/mod.git'', html_url = ''https://github.com/octo/mod'',
      has_issues = True,
      get_contents = (\<lambda>path.
         if path = ''module.prop''
         then Inr (ContentFile (Some prop) ''https://raw.example/module.prop'')
         else if path = ''changelog.md''
         then (case log_url of None \<Rightarrow> Inl UnknownObjectException
               | Some u \<Rightarrow> Inr (ContentFile (Some ''# 1.0'') u))
         else Inl UnknownObjectException),
      get_license = Inr ''MIT''\<rparr>"

definition example_repo :: Repository where
  "example_repo = module_repo ''id=foo'' (Some ''https://raw.example/changelog.md'')"

definition bare_repo :: Repository where
  "bare_repo =
     \<lparr>owner_login = ''octo'', name = ''notes'', ssh_url = ''git@github.com:octo/notes.git'',
      clone_url = ''https://github.com/octo/notes.git'',
      html_url = ''https://github.com/octo/notes'', has_issues = False,
      get_contents = (\<lambda>path. Inl UnknownObjectException),
      get_license = Inl UnknownObjectException\<rparr>"

definition example_forge :: "unit forge" where
  "example_forge =
     \<lparr>post = (\<lambda>q.
        if q = repository_query ''octo'' ''mod'' ''fundingLinks { platform url }''
        then Response True (Inr (JObj [(''data'', JObj [(''repository'', JObj [(''fundingLinks'',
               JList [JObj [(''platform'', JStr ''GITHUB''), (''url'', JStr ''https://github.com/sponsors-org'')],
                      JObj [(''platform'', JStr ''OTHER''), (''url'', JStr ''https://x.example'')]])])])]))
        else if q = repository_query ''octo'' ''mod'' ''homepageUrl''
        then Response True (Inr (JObj [(''data'', JObj [(''repository'', JObj [(''homepageUrl'', JStr [])])])]))
        else Response True (Inr (JObj [(''data'', JObj [(''repository'', JNull)])]))),
      get_user = (\<lambda>u. if u = ''octo'' then Inr ([example_repo, bare_repo], None)
                      else Inl UnknownObjectException)\<rparr>"

definition example_module :: "unit module" where
  "example_module =
     \<lparr>id_str = ''foo'', kind = ''git'', provider = ''git@github.com:octo/mod.git'',
      changelog = ''https://raw.example/changelog.md'',
      metadata = \<lparr>license = ''MIT'', homepage = JStr [],
                  source = ''https://github.com/octo/mod.git'',
                  donate = JStr ''https://github.com/sponsors/sponsors-org'',
                  support = ''https://github.com/octo/mod/issues''\<rparr>\<rparr>"

text \<open>The catalog of that forge.\<close>

definition example_config :: "unit config" where
  "example_config = \<lparr>log = [], repository = [], modules = [example_module]\<rparr>"


definition offline_forge :: "unit forge" where
  "offline_forge =
     \<lparr>post = (\<lambda>q. Raises RequestException), get_user = (\<lambda>u. Inl RequestException)\<rparr>"


text \<open>A working tree with a module over the limit, one just under it that also holds a
  large file that is no archive and a large archive one level down, a hidden directory
  and a stray archive; a subprocess that succeeds and changes nothing; and a stand-in for
  Python's division and clock on the timestamp of that tree, a float being held as a
  number of microseconds.\<close>

definition example_tree :: "int worktree" where
  "example_tree =
     \<lparr>modules_dir = Dir 4096
        [(''big'', Dir 4096 [(''big-v1.zip'', File 52428800), (''update.json'', File 512)]),
         (''small'', Dir 4096 [(''small-v1.zip'', File 52428799),
                               (''assets.bin'', File 99999999999),
                               (''old'', Dir 4096 [(''old-v0.zip'', File 60000000)])]),
         (''.cache'', Dir 4096 [(''tmp.zip'', File 60000000)]),
         (''stray.zip'', File 60000000)],
      modules_json = Inr (JObj [(''name'', JStr ''repo''), (''timestamp'', JInt 1700000000000)])\<rparr>"

definition quiet_run :: "int subprocess" where
  "quiet_run args t = Inr t"

definition example_time :: "int pytime" where
  "example_time =
     \<lparr>int_truediv = (\<lambda>n d. Inr (n * 1000000 div d)),
      float_truediv = (\<lambda>x d. Inr (x div d)),
      utc_str = (\<lambda>x. if x = 1700000000000000 then Inr ''2023-11-14 22:13:20+00:00''
                       else Inl OverflowError)\<rparr>"

section \<open>The descriptor parser\<close>

lemma py_split1_eq:
  "sep \<in> set line \<Longrightarrow>
   py_split1 sep line = [takeWhile (\<lambda>c. c \<noteq> sep) line, tl (dropWhile (\<lambda>c. c \<noteq> sep) line)]"
  unfolding py_split1_def
  by (cases "dropWhile (\<lambda>c. c \<noteq> sep) line") (auto simp: dropWhile_eq_Nil_conv)


text \<open>The loop never fails at the unpacking, and is a left fold of \<open>put_line\<close>.\<close>

lemma prop_lines_foldl: "prop_lines m ls = Inr (foldl put_line m ls)"
  by (induction ls arbitrary: m) (simp_all add: put_line_def py_split1_eq)









text \<open>The same descriptor, run: the later \<open>id\<close> wins, nothing is trimmed, and the line
  without \<open>=\<close> leaves no key.\<close>

lemma get_module_prop_example:
  "\<exists>m. get_module_prop (descriptor_repo ''id=foo\<newline>name = a=b \<newline>junk\<newline>id=bar'') = Inr (Some m) \<and>
     m ''id'' = Some ''bar'' \<and> m ''name '' = Some '' a=b '' \<and> m ''junk'' = None \<and>
     m ''name'' = None"
proof -
  have sl: "splitlines ''id=foo\<newline>name = a=b \<newline>junk\<newline>id=bar''
            = [''id=foo'', ''name = a=b '', ''junk'', ''id=bar'']"
    by (simp add: splitlines_def linebreak_def)
  show ?thesis
    by (simp add: get_module_prop_def parse_prop_def descriptor_repo_def sl py_split1_def)
qed

section \<open>The module resolver and the catalog builder\<close>

text \<open>What a produced record says about the steps that led to it.\<close>

lemma generate_module_Some:
  assumes gm: "generate_module w repo = Inr (Some m)"
  shows "\<exists>mp urls hp idv lic.
           get_module_prop repo = Inr (Some mp) \<and>
           get_sponsor_url w (owner_login repo) (name repo) = Inr urls \<and>
           get_homepage_url w (owner_login repo) (name repo) = Inr hp \<and>
           mp ''id'' = Some idv \<and> get_license_id repo = Inr lic \<and>
           (if truthy (mp ''updateJson'')
            then kind m = ''update-json'' \<and> mp ''updateJson'' = Some (provider m) \<and> changelog m = []
            else kind m = ''git'' \<and> provider m = ssh_url repo \<and> get_changelog repo = Inr (changelog m)) \<and>
           id_str m = idv \<and>
           donate (metadata m) = (case urls of [] \<Rightarrow> JStr [] | u # _ \<Rightarrow> u) \<and>
           homepage (metadata m) = (if hp = JNull then JStr [] else hp) \<and>
           license (metadata m) = lic \<and> source (metadata m) = clone_url repo \<and>
           support (metadata m) = (if has_issues repo then html_url repo @ ''/issues'' else [])"
proof -
  obtain mp where mp: "get_module_prop repo = Inr (Some mp)"
  proof (cases "get_module_prop repo")
    case (Inl e)
    with gm show ?thesis by (simp add: generate_module_def)
  next
    case (Inr x)
    with gm that show ?thesis by (cases x) (simp_all add: generate_module_def)
  qed
  obtain pv cv kv where pck:
    "(if truthy (mp ''updateJson'')
      then (case prop_item mp ''updateJson'' of
              Inl e \<Rightarrow> Inl e
            | Inr v \<Rightarrow> Inr (v, [], ''update-json''))
      else (case get_changelog repo of
              Inl e \<Rightarrow> Inl e
            | Inr c \<Rightarrow> Inr (ssh_url repo, c, ''git''))) = (Inr (pv, cv, kv) :: py_error + string \<times> string \<times> string)"
    (is "?pck = _")
  proof (cases ?pck)
    case (Inl e)
    with gm mp show ?thesis by (simp add: generate_module_def)
  next
    case (Inr x)
    with that show ?thesis by (cases x) simp
  qed
  have kind_facts:
    "if truthy (mp ''updateJson'')
     then kv = ''update-json'' \<and> mp ''updateJson'' = Some pv \<and> cv = []
     else kv = ''git'' \<and> pv = ssh_url repo \<and> get_changelog repo = Inr cv"
    using pck by (auto simp: truthy_def prop_item_def split: if_splits option.splits sum.splits)
  obtain urls where urls: "get_sponsor_url w (owner_login repo) (name repo) = Inr urls"
  proof (cases "get_sponsor_url w (owner_login repo) (name repo)")
    case (Inl e)
    with gm mp pck show ?thesis by (simp add: generate_module_def)
  next
    case (Inr x)
    with that show ?thesis by simp
  qed
  obtain hp where hp: "get_homepage_url w (owner_login repo) (name repo) = Inr hp"
  proof (cases "get_homepage_url w (owner_login repo) (name repo)")
    case (Inl e)
    with gm mp pck urls show ?thesis by (simp add: generate_module_def Let_def)
  next
    case (Inr x)
    with that show ?thesis by simp
  qed
  obtain idv where idv: "mp ''id'' = Some idv"
  proof (cases "mp ''id''")
    case None
    with gm mp pck urls hp show ?thesis by (simp add: generate_module_def Let_def prop_item_def)
  next
    case (Some x)
    with that show ?thesis by simp
  qed
  obtain lic where lic: "get_license_id repo = Inr lic"
  proof (cases "get_license_id repo")
    case (Inl e)
    with gm mp pck urls hp idv show ?thesis by (simp add: generate_module_def Let_def prop_item_def)
  next
    case (Inr x)
    with that show ?thesis by simp
  qed
  have m: "m = \<lparr>id_str = idv, kind = kv, provider = pv, changelog = cv,
                metadata = \<lparr>license = lic,
                            homepage = (if hp = JNull then JStr [] else hp),
                            source = clone_url repo,
                            donate = (if length urls = 0 then JStr [] else urls ! 0),
                            support = (if has_issues repo then html_url repo @ ''/issues'' else [])\<rparr>\<rparr>"
    using gm mp pck urls hp idv lic by (simp add: generate_module_def Let_def prop_item_def)
  show ?thesis
    using mp urls hp idv lic kind_facts by (cases urls) (simp_all add: m)
qed

lemma generate_module_None:
  "generate_module w repo = Inr None \<longleftrightarrow> get_module_prop repo = Inr None"
proof
  assume gm: "generate_module w repo = Inr None"
  show "get_module_prop repo = Inr None"
  proof (cases "get_module_prop repo")
    case (Inl e)
    with gm show ?thesis by (simp add: generate_module_def)
  next
    case (Inr x)
    show ?thesis
    proof (cases x)
      case None
      with Inr show ?thesis by simp
    next
      case (Some mp)
      with gm Inr have False
        by (simp add: generate_module_def Let_def split: sum.splits prod.splits)
      then show ?thesis ..
    qed
  qed
next
  assume "get_module_prop repo = Inr None"
  then show "generate_module w repo = Inr None" by (simp add: generate_module_def)
qed

lemma get_module_prop_None:
  "get_module_prop repo = Inr None \<longleftrightarrow> get_contents repo ''module.prop'' = Inl UnknownObjectException"
  by (auto simp: get_module_prop_def parse_prop_def prop_lines_foldl
           split: sum.splits content.splits option.splits if_splits)

lemma get_changelog_url:
  "get_changelog repo = Inr c \<Longrightarrow>
   (c \<noteq> [] \<longrightarrow> (\<exists>text. get_contents repo ''changelog.md'' = Inr (ContentFile text c))) \<and>
   (\<forall>text url. get_contents repo ''changelog.md'' = Inr (ContentFile text url) \<longrightarrow> c = url)"
  by (auto simp: get_changelog_def split: sum.splits content.splits if_splits)

text \<open>
  C1. When the resolver produces a record for a repository, the repository has a descriptor
  mapping, and the record's kind is \<open>update-json\<close> exactly when the mapping has a non-empty
  \<open>updateJson\<close> value; then the provider is that value and the changelog is empty. Otherwise
  the kind is \<open>git\<close> and the provider is the SSH clone URL. The changelog is non-empty only
  for kind \<open>git\<close> with a \<open>changelog.md\<close> in the repository, and for kind \<open>git\<close> it is the
  download URL of that file whenever the file exists.
\<close>

theorem generate_module_kind:
  assumes "generate_module w repo = Inr (Some m)"
  shows "\<exists>mp. get_module_prop repo = Inr (Some mp) \<and>
           (kind m = ''update-json'' \<longleftrightarrow> (\<exists>v. mp ''updateJson'' = Some v \<and> v \<noteq> [])) \<and>
           (\<forall>v. mp ''updateJson'' = Some v \<and> v \<noteq> [] \<longrightarrow> provider m = v \<and> changelog m = []) \<and>
           (\<not> (\<exists>v. mp ''updateJson'' = Some v \<and> v \<noteq> []) \<longrightarrow>
              kind m = ''git'' \<and> provider m = ssh_url repo) \<and>
           (changelog m \<noteq> [] \<longrightarrow>
              kind m = ''git'' \<and>
              (\<exists>text. get_contents repo ''changelog.md'' = Inr (ContentFile text (changelog m)))) \<and>
           (kind m = ''git'' \<longrightarrow>
              (\<forall>text url. get_contents repo ''changelog.md'' = Inr (ContentFile text url) \<longrightarrow>
                 changelog m = url))"
proof -
  from generate_module_Some[OF assms] obtain mp where
    mp: "get_module_prop repo = Inr (Some mp)" and
    k: "if truthy (mp ''updateJson'')
        then kind m = ''update-json'' \<and> mp ''updateJson'' = Some (provider m) \<and> changelog m = []
        else kind m = ''git'' \<and> provider m = ssh_url repo \<and> get_changelog repo = Inr (changelog m)"
    by blast
  have t: "truthy (mp ''updateJson'') \<longleftrightarrow> (\<exists>v. mp ''updateJson'' = Some v \<and> v \<noteq> [])"
    by (simp add: truthy_def split: option.splits)
  show ?thesis
  proof (cases "truthy (mp ''updateJson'')")
    case True
    with k mp t show ?thesis by auto
  next
    case False
    with k have g: "kind m = ''git''" "provider m = ssh_url repo"
      and c: "get_changelog repo = Inr (changelog m)" by simp_all
    from get_changelog_url[OF c] g False t mp show ?thesis by auto
  qed
qed


lemma module_repo_fields:
  "owner_login (module_repo prop log_url) = ''octo''"
  "name (module_repo prop log_url) = ''mod''"
  "ssh_url (module_repo prop log_url) = ''git@github.com:octo/mod.git''"
  "clone_url (module_repo prop log_url) = ''https://github.com/octo/mod.git''"
  "html_url (module_repo prop log_url) = ''https://github.com/octo/mod''"
  "has_issues (module_repo prop log_url)"
  "get_contents (module_repo prop log_url) ''module.prop''
     = Inr (ContentFile (Some prop) ''https://raw.example/module.prop'')"
  "get_contents (module_repo prop (Some u)) ''changelog.md'' = Inr (ContentFile (Some ''# 1.0'') u)"
  "get_contents (module_repo prop None) ''changelog.md'' = Inl UnknownObjectException"
  "get_license (module_repo prop log_url) = Inr ''MIT''"
  by (simp_all add: module_repo_def)

lemma example_sponsor_url:
  "get_sponsor_url example_forge ''octo'' ''mod''
     = Inr [JStr ''https://github.com/sponsors/sponsors-org'', JStr ''https://x.example'']"
  by (simp add: get_sponsor_url_def query_repository_def graphql_query_def example_forge_def
        repository_query_def py_split_def py_last_def)

lemma example_homepage_url: "get_homepage_url example_forge ''octo'' ''mod'' = Inr JNull"
  by (simp add: get_homepage_url_def query_repository_def graphql_query_def example_forge_def
        repository_query_def)

lemma example_module_prop:
  "get_module_prop (module_repo ''id=foo'' log_url) = Inr (Some [''id'' \<mapsto> ''foo''])"
  "get_module_prop (module_repo ''name=foo'' log_url) = Inr (Some [''name'' \<mapsto> ''foo''])"
  by (simp_all add: get_module_prop_def parse_prop_def module_repo_fields splitlines_def
        linebreak_def py_split1_def)

lemma example_generate_module:
  "generate_module example_forge example_repo = Inr (Some example_module)"
  by (simp add: generate_module_def example_repo_def example_module_prop module_repo_fields
        example_sponsor_url example_homepage_url truthy_def prop_item_def get_changelog_def
        get_license_id_def example_module_def)

lemma bare_generate_module: "generate_module w bare_repo = Inr None"
  by (simp add: generate_module_def get_module_prop_def bare_repo_def)

theorem generate_module_kind_witness:
  "generate_module example_forge example_repo = Inr (Some example_module) \<and>
   (\<exists>mp. get_module_prop example_repo = Inr (Some mp) \<and>
      (kind example_module = ''update-json'' \<longleftrightarrow> (\<exists>v. mp ''updateJson'' = Some v \<and> v \<noteq> [])) \<and>
      (\<not> (\<exists>v. mp ''updateJson'' = Some v \<and> v \<noteq> []) \<longrightarrow>
         kind example_module = ''git'' \<and> provider example_module = ssh_url example_repo) \<and>
      (changelog example_module \<noteq> [] \<longrightarrow>
         kind example_module = ''git'' \<and>
         (\<exists>text. get_contents example_repo ''changelog.md''
                   = Inr (ContentFile text (changelog example_module)))))"
  using example_generate_module generate_module_kind[OF example_generate_module] by blast

text \<open>A descriptor with an update channel gives kind \<open>update-json\<close> and no changelog, even
  with a \<open>changelog.md\<close> in the repository; with an empty \<open>updateJson\<close> the kind is \<open>git\<close>.\<close>

lemma example_update_json:
  "\<exists>m. generate_module example_forge
         (module_repo ''id=foo\<newline>updateJson=https://x.example/update.json''
            (Some ''https://raw.example/changelog.md'')) = Inr (Some m) \<and>
       kind m = ''update-json'' \<and> provider m = ''https://x.example/update.json'' \<and>
       changelog m = []"
proof -
  have "get_module_prop (module_repo ''id=foo\<newline>updateJson=https://x.example/update.json''
            (Some ''https://raw.example/changelog.md''))
          = Inr (Some [''id'' \<mapsto> ''foo'', ''updateJson'' \<mapsto> ''https://x.example/update.json''])"
    by (simp add: get_module_prop_def parse_prop_def module_repo_fields splitlines_def
          linebreak_def py_split1_def)
  then show ?thesis
    by (simp add: generate_module_def module_repo_fields example_sponsor_url
          example_homepage_url truthy_def prop_item_def get_license_id_def)
qed

lemma example_empty_update_json:
  "\<exists>m. generate_module example_forge (module_repo ''id=foo\<newline>updateJson='' None) = Inr (Some m) \<and>
       kind m = ''git'' \<and> provider m = ''git@github.com:octo/mod.git'' \<and> changelog m = []"
proof -
  have "get_module_prop (module_repo ''id=foo\<newline>updateJson='' None)
          = Inr (Some [''id'' \<mapsto> ''foo'', ''updateJson'' \<mapsto> []])"
    by (simp add: get_module_prop_def parse_prop_def module_repo_fields splitlines_def
          linebreak_def py_split1_def)
  then show ?thesis
    by (simp add: generate_module_def module_repo_fields example_sponsor_url
          example_homepage_url truthy_def prop_item_def get_license_id_def get_changelog_def)
qed

lemma collect_modules_Inr:
  "collect_modules w acc repos = Inr ms \<Longrightarrow>
   map (Inr \<circ> Some) ms
     = map (Inr \<circ> Some) acc @ filter (\<lambda>x. x \<noteq> Inr None) (map (generate_module w) repos) \<and>
   (\<forall>r\<in>set repos. \<exists>x. generate_module w r = Inr x)"
proof (induction repos arbitrary: acc)
  case Nil
  then show ?case by simp
next
  case (Cons r repos)
  show ?case
  proof (cases "generate_module w r")
    case (Inl e)
    with Cons.prems show ?thesis by simp
  next
    case (Inr x)
    show ?thesis
    proof (cases x)
      case None
      with Inr Cons.prems have "collect_modules w acc repos = Inr ms" by simp
      from Cons.IH[OF this] Inr None show ?thesis by simp
    next
      case (Some m)
      with Inr Cons.prems have "collect_modules w (acc @ [m]) repos = Inr ms" by simp
      from Cons.IH[OF this] Inr Some show ?thesis by simp
    qed
  qed
qed

lemma length_filter_absent:
  "length (filter (\<lambda>x. x \<noteq> c) (map f xs)) + length (filter (\<lambda>x. f x = c) xs) = length xs"
  by (induction xs) simp_all

text \<open>
  C3. When the catalog builder returns, the enumeration of the account has ended without
  an exception, and the resolver results of the repositories, in enumeration order and
  with the absent ones left out, are exactly the entries of \<open>modules\<close>. A repository
  without a descriptor file gives an absent result, so there are at most as many records
  as repositories, and the difference is the number of repositories without a descriptor
  file.
\<close>

theorem generate_modules_catalog:
  assumes "generate_modules w user_name = Inr cfg"
  shows "\<exists>repos. get_user w user_name = Inr (repos, None) \<and>
           map (Inr \<circ> Some) (modules cfg)
             = filter (\<lambda>x. x \<noteq> Inr None) (map (generate_module w) repos) \<and>
           (\<forall>r\<in>set repos. get_contents r ''module.prop'' = Inl UnknownObjectException \<longrightarrow>
              generate_module w r = Inr None) \<and>
           length (modules cfg) \<le> length repos \<and>
           length repos - length (modules cfg)
             = length (filter (\<lambda>r. get_contents r ''module.prop'' = Inl UnknownObjectException) repos)"
proof -
  from assms obtain repos where u: "get_user w user_name = Inr (repos, None)"
    and c: "collect_modules w [] repos = Inr (modules cfg)"
    by (auto simp: generate_modules_def split: sum.splits prod.splits option.splits)
  from collect_modules_Inr[OF c]
  have ms: "map (Inr \<circ> Some) (modules cfg)
              = filter (\<lambda>x. x \<noteq> Inr None) (map (generate_module w) repos)"
    by simp
  have absent: "\<And>r. generate_module w r = Inr None
                  \<longleftrightarrow> get_contents r ''module.prop'' = Inl UnknownObjectException"
    by (simp add: generate_module_None get_module_prop_None)
  have "length (modules cfg) = length (map (Inr \<circ> Some :: 'a module \<Rightarrow> py_error + 'a module option) (modules cfg))" by simp
  also have "\<dots> = length (filter (\<lambda>x. x \<noteq> Inr None) (map (generate_module w) repos))"
    using ms by simp
  finally have len: "length (modules cfg)
      + length (filter (\<lambda>r. get_contents r ''module.prop'' = Inl UnknownObjectException) repos)
      = length repos"
    using length_filter_absent[of "Inr None" "generate_module w" repos] by (simp add: absent)
  show ?thesis using u ms absent len by auto
qed

lemma example_generate_modules:
  "generate_modules example_forge ''octo'' = Inr example_config"
proof -
  have "get_user example_forge ''octo'' = Inr ([example_repo, bare_repo], None)"
    by (simp add: example_forge_def)
  then show ?thesis
    by (simp add: generate_modules_def example_generate_module bare_generate_module
          example_config_def)
qed

theorem generate_modules_catalog_witness:
  "generate_modules example_forge ''octo'' = Inr example_config \<and>
   (\<exists>repos. get_user example_forge ''octo'' = Inr (repos, None) \<and>
      map (Inr \<circ> Some) (modules example_config)
        = filter (\<lambda>x. x \<noteq> Inr None) (map (generate_module example_forge) repos) \<and>
      (\<forall>r\<in>set repos. get_contents r ''module.prop'' = Inl UnknownObjectException \<longrightarrow>
         generate_module example_forge r = Inr None) \<and>
      length (modules example_config) \<le> length repos \<and>
      length repos - length (modules example_config)
        = length (filter (\<lambda>r. get_contents r ''module.prop'' = Inl UnknownObjectException) repos))"
  using example_generate_modules generate_modules_catalog[OF example_generate_modules] by blast

lemma example_catalog_count:
  "length (modules example_config) = 1 \<and>
   length (filter (\<lambda>r. get_contents r ''module.prop'' = Inl UnknownObjectException)
             [example_repo, bare_repo]) = 1"
  by (simp add: example_config_def example_repo_def module_repo_fields bare_repo_def)

text \<open>
  C6 (amended). For a repository whose descriptor file exists but whose mapping lacks the
  \<open>id\<close> key, the resolver makes no check before it assembles the record, and returns
  none: the run of the resolver ends in an exception, which is the \<open>KeyError\<close> of the
  lookup of \<open>id\<close> whenever the changelog probe (made for kind \<open>git\<close>) and the funding and
  homepage queries before it have returned.
\<close>

theorem generate_module_without_id:
  assumes mp: "get_module_prop repo = Inr (Some mp)" and noid: "mp ''id'' = None"
  shows "(\<exists>e. generate_module w repo = Inl e) \<and>
         ((truthy (mp ''updateJson'') \<or> (\<exists>c. get_changelog repo = Inr c)) \<and>
          (\<exists>urls. get_sponsor_url w (owner_login repo) (name repo) = Inr urls) \<and>
          (\<exists>hp. get_homepage_url w (owner_login repo) (name repo) = Inr hp)
          \<longrightarrow> generate_module w repo = Inl KeyError)"
proof
  show "\<exists>e. generate_module w repo = Inl e"
  proof (cases "generate_module w repo")
    case (Inl e)
    then show ?thesis by blast
  next
    case (Inr x)
    show ?thesis
    proof (cases x)
      case None
      with Inr have "get_module_prop repo = Inr None" by (simp add: generate_module_None)
      with mp show ?thesis by simp
    next
      case (Some m)
      with Inr have "generate_module w repo = Inr (Some m)" by simp
      from generate_module_Some[OF this] mp noid show ?thesis by auto
    qed
  qed
next
  show "(truthy (mp ''updateJson'') \<or> (\<exists>c. get_changelog repo = Inr c)) \<and>
          (\<exists>urls. get_sponsor_url w (owner_login repo) (name repo) = Inr urls) \<and>
          (\<exists>hp. get_homepage_url w (owner_login repo) (name repo) = Inr hp)
          \<longrightarrow> generate_module w repo = Inl KeyError"
  proof
    assume a: "(truthy (mp ''updateJson'') \<or> (\<exists>c. get_changelog repo = Inr c)) \<and>
          (\<exists>urls. get_sponsor_url w (owner_login repo) (name repo) = Inr urls) \<and>
          (\<exists>hp. get_homepage_url w (owner_login repo) (name repo) = Inr hp)"
    then obtain urls hp where urls: "get_sponsor_url w (owner_login repo) (name repo) = Inr urls"
      and hp: "get_homepage_url w (owner_login repo) (name repo) = Inr hp" by blast
    show "generate_module w repo = Inl KeyError"
    proof (cases "truthy (mp ''updateJson'')")
      case True
      then obtain v where "mp ''updateJson'' = Some v"
        by (auto simp: truthy_def split: option.splits)
      with True mp noid urls hp show ?thesis
        by (simp add: generate_module_def prop_item_def Let_def)
    next
      case False
      with a obtain c where "get_changelog repo = Inr c" by blast
      with False mp noid urls hp show ?thesis
        by (simp add: generate_module_def prop_item_def Let_def)
    qed
  qed
qed

theorem generate_module_without_id_witness:
  "get_module_prop (module_repo ''name=foo'' None) = Inr (Some [''name'' \<mapsto> ''foo'']) \<and>
   [''name'' \<mapsto> ''foo''] ''id'' = None \<and>
   (\<exists>e. generate_module example_forge (module_repo ''name=foo'' None) = Inl e)"
proof -
  have h: "get_module_prop (module_repo ''name=foo'' None) = Inr (Some [''name'' \<mapsto> ''foo''])"
    by (rule example_module_prop)
  have n: "[''name'' \<mapsto> ''foo''] ''id'' = None" by simp
  from generate_module_without_id[OF h n, of example_forge] h n show ?thesis by blast
qed

text \<open>A descriptor \<open>name=foo\<close>: the file exists, the mapping has no \<open>id\<close>, and no record
  is returned.\<close>

theorem generate_module_without_id_counterexample:
  "get_contents (module_repo ''name=foo'' None) ''module.prop''
     = Inr (ContentFile (Some ''name=foo'') ''https://raw.example/module.prop'') \<and>
   get_module_prop (module_repo ''name=foo'' None) = Inr (Some [''name'' \<mapsto> ''foo'']) \<and>
   generate_module example_forge (module_repo ''name=foo'' None) = Inl KeyError"
  by (simp add: generate_module_def example_module_prop module_repo_fields
        example_sponsor_url example_homepage_url truthy_def prop_item_def get_changelog_def)

section \<open>The query client\<close>

lemma split_acc_nonempty: "split_acc sep cur s \<noteq> []"
  by (induction s arbitrary: cur) simp_all

lemma takeWhile_rev_snoc:
  "sep \<notin> set s \<Longrightarrow> takeWhile (\<lambda>c. c \<noteq> sep) (rev s @ [sep]) = rev s"
  by (subst takeWhile_append2) auto

lemma last_split_acc:
  "last (split_acc sep cur s)
     = (if sep \<in> set s then rev (takeWhile (\<lambda>c. c \<noteq> sep) (rev s)) else cur @ s)"
proof (induction s arbitrary: cur)
  case Nil
  show ?case by simp
next
  case (Cons c s)
  show ?case
  proof (cases "c = sep")
    case True
    then show ?thesis
      using Cons.IH[of "[]"] by (auto simp: split_acc_nonempty takeWhile_append1 takeWhile_rev_snoc)
  next
    case False
    then show ?thesis
      using Cons.IH[of "cur @ [c]"] by (auto simp: takeWhile_append1)
  qed
qed

text \<open>The last segment of a string is what follows its last separator, the whole
  string when it has none.\<close>

lemma last_py_split:
  "last (py_split sep s)
     = (if sep \<in> set s then rev (takeWhile (\<lambda>c. c \<noteq> sep) (rev s)) else s)"
  by (simp add: py_split_def last_split_acc)

lemma py_last_py_split: "py_last (py_split sep s) = Inr (last (py_split sep s))"
  by (simp add: py_last_def py_split_def split_acc_nonempty)

lemma sponsor_links_entries:
  assumes "list_all2 (\<lambda>item (p, u). py_getitem item ''platform'' = Inr (JStr p) \<and>
                                       py_getitem item ''url'' = Inr (JStr u)) items entries"
  shows "sponsor_links links items
           = Inr (links @ map (\<lambda>(p, u). JStr (if p = ''GITHUB''
                                              then ''https://github.com/sponsors/'' @ last (py_split (CHR ''/'') u)
                                              else u)) entries)"
  using assms
proof (induction items entries arbitrary: links rule: list_all2_induct)
  case Nil
  show ?case by simp
next
  case (Cons item items e entries)
  obtain p u where e: "e = (p, u)" by (cases e)
  with Cons.hyps have g: "py_getitem item ''platform'' = Inr (JStr p)"
    "py_getitem item ''url'' = Inr (JStr u)" by simp_all
  show ?case
    by (simp add: g e Cons.IH py_last_py_split)
qed

text \<open>
  C4. When the repository result is well-formed (an object whose \<open>fundingLinks\<close> is a list
  of entries, each with a string \<open>platform\<close> and a string \<open>url\<close>), the funding-links
  operation returns one URL per entry, in the order of the entries: the sponsors URL built
  from the last \<open>/\<close>-separated segment of the stored URL where the platform is \<open>GITHUB\<close>,
  the stored URL unchanged otherwise. The \<open>donate\<close> field of a record produced for that
  repository is the first of them, the empty string when there is none.
\<close>

theorem get_sponsor_url_entries:
  assumes "query_repository w owner rname ''fundingLinks { platform url }'' = Inr result"
    and "py_getitem result ''fundingLinks'' = Inr (JList items)"
    and "list_all2 (\<lambda>item (p, u). py_getitem item ''platform'' = Inr (JStr p) \<and>
                                    py_getitem item ''url'' = Inr (JStr u)) items entries"
  shows "get_sponsor_url w owner rname
           = Inr (map (\<lambda>(p, u). JStr (if p = ''GITHUB''
                                       then ''https://github.com/sponsors/'' @ last (py_split (CHR ''/'') u)
                                       else u)) entries) \<and>
         (\<forall>repo m. owner_login repo = owner \<and> name repo = rname \<and>
                    generate_module w repo = Inr (Some m) \<longrightarrow>
            donate (metadata m)
              = (case entries of
                   [] \<Rightarrow> JStr []
                 | (p, u) # _ \<Rightarrow>
                     JStr (if p = ''GITHUB''
                           then ''https://github.com/sponsors/'' @ last (py_split (CHR ''/'') u)
                           else u)))"
proof -
  let ?f = "\<lambda>(p, u). JStr (if p = ''GITHUB''
                              then ''https://github.com/sponsors/'' @ last (py_split (CHR ''/'') u)
                              else u) :: 'a json"
  have nn: "result \<noteq> JNull" using assms(2) by auto
  have s: "get_sponsor_url w owner rname = Inr (map ?f entries)"
    using assms(1,2) nn sponsor_links_entries[OF assms(3), of "[]"]
    by (simp add: get_sponsor_url_def)
  have "donate (metadata m)
          = (case entries of
               [] \<Rightarrow> JStr []
             | (p, u) # _ \<Rightarrow>
                 JStr (if p = ''GITHUB''
                       then ''https://github.com/sponsors/'' @ last (py_split (CHR ''/'') u)
                       else u))"
    if "owner_login repo = owner" "name repo = rname" "generate_module w repo = Inr (Some m)"
    for repo m
  proof -
    from generate_module_Some[OF that(3)] obtain urls where
      "get_sponsor_url w (owner_login repo) (name repo) = Inr urls"
      "donate (metadata m) = (case urls of [] \<Rightarrow> JStr [] | u # _ \<Rightarrow> u)" by blast
    with s that(1,2) show ?thesis by (cases entries) auto
  qed
  with s show ?thesis by blast
qed

theorem get_sponsor_url_entries_witness:
  "query_repository example_forge ''octo'' ''mod'' ''fundingLinks { platform url }''
     = Inr (JObj [(''fundingLinks'',
              JList [JObj [(''platform'', JStr ''GITHUB''), (''url'', JStr ''https://github.com/sponsors-org'')],
                     JObj [(''platform'', JStr ''OTHER''), (''url'', JStr ''https://x.example'')]])]) \<and>
   get_sponsor_url example_forge ''octo'' ''mod''
     = Inr [JStr ''https://github.com/sponsors/sponsors-org'', JStr ''https://x.example''] \<and>
   generate_module example_forge example_repo = Inr (Some example_module) \<and>
   donate (metadata example_module) = JStr ''https://github.com/sponsors/sponsors-org''"
proof -
  let ?items = "[JObj [(''platform'', JStr ''GITHUB''), (''url'', JStr ''https://github.com/sponsors-org'')],
                 JObj [(''platform'', JStr ''OTHER''), (''url'', JStr ''https://x.example'')]] :: unit json list"
  let ?entries = "[(''GITHUB'', ''https://github.com/sponsors-org''), (''OTHER'', ''https://x.example'')]"
  have h1: "query_repository example_forge ''octo'' ''mod'' ''fundingLinks { platform url }''
              = Inr (JObj [(''fundingLinks'', JList ?items)])"
    by (simp add: query_repository_def graphql_query_def example_forge_def repository_query_def)
  have h2: "py_getitem (JObj [(''fundingLinks'', JList ?items)]) ''fundingLinks'' = Inr (JList ?items)"
    by simp
  have h3: "list_all2 (\<lambda>item (p, u). py_getitem item ''platform'' = Inr (JStr p) \<and>
                                       py_getitem item ''url'' = Inr (JStr u)) ?items ?entries"
    by simp
  have f: "owner_login example_repo = ''octo''" "name example_repo = ''mod''"
    by (simp_all add: example_repo_def module_repo_fields)
  from get_sponsor_url_entries[OF h1 h2 h3] f example_generate_module
  have "get_sponsor_url example_forge ''octo'' ''mod''
          = Inr (map (\<lambda>(p, u). JStr (if p = ''GITHUB''
                                      then ''https://github.com/sponsors/'' @ last (py_split (CHR ''/'') u)
                                      else u)) ?entries)"
    and "donate (metadata example_module)
          = (case ?entries of
               [] \<Rightarrow> JStr []
             | (p, u) # _ \<Rightarrow>
                 JStr (if p = ''GITHUB''
                       then ''https://github.com/sponsors/'' @ last (py_split (CHR ''/'') u)
                       else u))"
    by blast+
  then show ?thesis
    using h1 example_generate_module by (simp add: py_split_def)
qed

text \<open>
  C5 (amended). Whenever the HTTP request returns a response, and the response is not OK,
  or its JSON body is not an object whose \<open>data\<close> is an object with a \<open>repository\<close> other
  than null, the funding-links operation returns the empty sequence and raises nothing.
  An exception raised by the request itself (a network or transport error), and one raised
  by decoding the body of an OK response, reach the caller.
\<close>

theorem get_sponsor_url_no_repository:
  "(post w (repository_query owner rname ''fundingLinks { platform url }'') = Response ok body \<and>
    (\<not> ok \<or>
     (\<exists>j. body = Inr j \<and>
        \<not> (\<exists>kvs kvs' r. j = JObj kvs \<and> map_of kvs ''data'' = Some (JObj kvs') \<and>
                         map_of kvs' ''repository'' = Some r \<and> r \<noteq> JNull)))
    \<longrightarrow> get_sponsor_url w owner rname = Inr []) \<and>
   (post w (repository_query owner rname ''fundingLinks { platform url }'') = Raises e
    \<longrightarrow> get_sponsor_url w owner rname = Inl e) \<and>
   (post w (repository_query owner rname ''fundingLinks { platform url }'') = Response True (Inl e)
    \<longrightarrow> get_sponsor_url w owner rname = Inl e)"
proof (intro conjI impI)
  assume a: "post w (repository_query owner rname ''fundingLinks { platform url }'') = Response ok body \<and>
    (\<not> ok \<or>
     (\<exists>j. body = Inr j \<and>
        \<not> (\<exists>kvs kvs' r. j = JObj kvs \<and> map_of kvs ''data'' = Some (JObj kvs') \<and>
                         map_of kvs' ''repository'' = Some r \<and> r \<noteq> JNull)))"
  have "query_repository w owner rname ''fundingLinks { platform url }'' = Inr JNull"
  proof (cases ok)
    case False
    with a show ?thesis by (simp add: query_repository_def graphql_query_def)
  next
    case True
    with a obtain j where j: "body = Inr j"
      and n: "\<not> (\<exists>kvs kvs' r. j = JObj kvs \<and> map_of kvs ''data'' = Some (JObj kvs') \<and>
                              map_of kvs' ''repository'' = Some r \<and> r \<noteq> JNull)" by blast
    have g: "graphql_query w (repository_query owner rname ''fundingLinks { platform url }'') = Inr j"
      using a True j by (simp add: graphql_query_def)
    show ?thesis
    proof (cases j)
      case (JObj kvs)
      show ?thesis
      proof (cases "map_of kvs ''data''")
        case None
        with g JObj show ?thesis by (simp add: query_repository_def)
      next
        case (Some d)
        show ?thesis
        proof (cases d)
          case (JObj kvs')
          with n \<open>j = JObj kvs\<close> Some have "map_of kvs' ''repository'' = None \<or> map_of kvs' ''repository'' = Some JNull"
            by (cases "map_of kvs' ''repository''") auto
          with g \<open>j = JObj kvs\<close> Some JObj show ?thesis
            by (auto simp: query_repository_def)
        qed (use g \<open>j = JObj kvs\<close> Some in \<open>simp_all add: query_repository_def\<close>)
      qed
    qed (use g in \<open>simp_all add: query_repository_def\<close>)
  qed
  then show "get_sponsor_url w owner rname = Inr []" by (simp add: get_sponsor_url_def)
next
  assume "post w (repository_query owner rname ''fundingLinks { platform url }'') = Raises e"
  then show "get_sponsor_url w owner rname = Inl e"
    by (simp add: get_sponsor_url_def query_repository_def graphql_query_def)
next
  assume "post w (repository_query owner rname ''fundingLinks { platform url }'') = Response True (Inl e)"
  then show "get_sponsor_url w owner rname = Inl e"
    by (simp add: get_sponsor_url_def query_repository_def graphql_query_def)
qed

theorem get_sponsor_url_no_repository_witness:
  "post example_forge (repository_query ''octo'' ''gone'' ''fundingLinks { platform url }'')
     = Response True (Inr (JObj [(''data'', JObj [(''repository'', JNull)])])) \<and>
   get_sponsor_url example_forge ''octo'' ''gone'' = Inr [] \<and>
   post offline_forge (repository_query ''octo'' ''mod'' ''fundingLinks { platform url }'')
     = Raises RequestException \<and>
   get_sponsor_url offline_forge ''octo'' ''mod'' = Inl RequestException"
proof -
  have h: "post example_forge (repository_query ''octo'' ''gone'' ''fundingLinks { platform url }'')
             = Response True (Inr (JObj [(''data'', JObj [(''repository'', JNull)])]))"
    by (simp add: example_forge_def repository_query_def)
  have o: "post offline_forge (repository_query ''octo'' ''mod'' ''fundingLinks { platform url }'')
             = Raises RequestException"
    by (simp add: offline_forge_def)
  from get_sponsor_url_no_repository[of example_forge "''octo''" "''gone''" True
         "Inr (JObj [(''data'', JObj [(''repository'', JNull)])])"] h
  have "get_sponsor_url example_forge ''octo'' ''gone'' = Inr []" by simp
  moreover from get_sponsor_url_no_repository[of offline_forge "''octo''" "''mod''" _ _ RequestException] o
  have "get_sponsor_url offline_forge ''octo'' ''mod'' = Inl RequestException" by blast
  ultimately show ?thesis using h o by simp
qed

text \<open>The request raises: the operation raises, and returns no sequence.\<close>

theorem get_sponsor_url_raises_counterexample:
  "get_sponsor_url offline_forge ''octo'' ''mod'' = Inl RequestException"
  by (simp add: get_sponsor_url_def query_repository_def graphql_query_def offline_forge_def)





section \<open>The maintenance workflow\<close>

lemma glob_match_Star: "glob_match [Star] s"
  by (induction s) simp_all

lemma glob_match_not_hidden:
  "glob_match [NotChar c, Star] s \<longleftrightarrow> s \<noteq> [] \<and> hd s \<noteq> c"
  by (cases s) (simp_all add: glob_match_Star)

lemma glob_match_Lit: "glob_match (map Lit z) s \<longleftrightarrow> s = z"
  by (induction z arbitrary: s) (simp, case_tac s, auto)

lemma glob_match_suffix: "glob_match (Star # map Lit z) s \<longleftrightarrow> suffix z s"
proof (induction s)
  case Nil
  show ?case using glob_match_Lit[of z "[]"] by auto
next
  case (Cons c s)
  show ?case using Cons.IH glob_match_Lit[of z "c # s"] by (auto simp: suffix_Cons)
qed

lemma skip_files_iff: "skip_files files \<longleftrightarrow> (\<exists>f\<in>set files. GITHUB_MAX_SIZE \<le> st_size (snd f))"
  by (induction files) auto

lemma skip_it_iff:
  "skip_it d \<longleftrightarrow>
     (\<exists>f\<in>set (entries_of d). suffix ''.zip'' (fst f) \<and> GITHUB_MAX_SIZE \<le> st_size (snd f))"
  using glob_match_suffix[of "''.zip''"]
  by (force simp: skip_it_def glob_def skip_files_iff)

lemma set_remove_dirs: "set (remove_dirs dirs) = fst ` {e \<in> set dirs. skip_it (snd e)}"
  by (induction dirs) auto

lemma removed_iff:
  "nm \<in> set (removed t) \<longleftrightarrow>
     (\<exists>d. (nm, d) \<in> set (entries_of (modules_dir t)) \<and> is_dir d \<and>
           nm \<noteq> [] \<and> hd nm \<noteq> CHR ''.'' \<and> skip_it d)"
  by (force simp: removed_def set_remove_dirs glob_def glob_match_not_hidden)

lemma exec_events:
  "\<exists>rest. fst (exec lib run t)
            = map Rmtree (removed t) @ Run [''mrepo'', ''upgrade'', ''--pretty''] # rest"
  by (auto simp: exec_def remove_def upgrade_def split: sum.splits prod.splits)

lemma example_removed: "removed example_tree = [''big'']"
  by (simp add: removed_def example_tree_def glob_def skip_it_def GITHUB_MAX_SIZE_def)

text \<open>
  C9. The events of a run start with the removals, and the upgrade follows them. The
  directories removed are exactly the module directories (the directories in \<open>modules\<close>
  whose name does not start with a dot) that hold an archive (an entry named \<open>*.zip\<close>) of
  50 * 1024 * 1024 bytes or more; afterwards they are gone and the others are still there.
\<close>

theorem remove_before_upgrade:
  "(\<exists>rest. fst (exec lib run t)
             = map Rmtree (removed t) @ Run [''mrepo'', ''upgrade'', ''--pretty''] # rest) \<and>
   (\<forall>nm. nm \<in> set (removed t) \<longleftrightarrow>
      (\<exists>d. (nm, d) \<in> set (entries_of (modules_dir t)) \<and> is_dir d \<and>
            nm \<noteq> [] \<and> hd nm \<noteq> CHR ''.'' \<and>
            (\<exists>f\<in>set (entries_of d). suffix ''.zip'' (fst f) \<and>
                                     50 * 1024 * 1024 \<le> st_size (snd f)))) \<and>
   entries_of (modules_dir (snd (remove t)))
     = filter (\<lambda>entry. fst entry \<notin> set (removed t)) (entries_of (modules_dir t))"
proof (intro conjI)
  show "\<exists>rest. fst (exec lib run t)
             = map Rmtree (removed t) @ Run [''mrepo'', ''upgrade'', ''--pretty''] # rest"
    by (rule exec_events)
next
  show "\<forall>nm. nm \<in> set (removed t) \<longleftrightarrow>
      (\<exists>d. (nm, d) \<in> set (entries_of (modules_dir t)) \<and> is_dir d \<and>
            nm \<noteq> [] \<and> hd nm \<noteq> CHR ''.'' \<and>
            (\<exists>f\<in>set (entries_of d). suffix ''.zip'' (fst f) \<and>
                                     50 * 1024 * 1024 \<le> st_size (snd f)))"
    using skip_it_iff by (simp add: removed_iff GITHUB_MAX_SIZE_def)
next
  show "entries_of (modules_dir (snd (remove t)))
     = filter (\<lambda>entry. fst entry \<notin> set (removed t)) (entries_of (modules_dir t))"
    by (cases "modules_dir t") (simp_all add: remove_def rmtree_def)
qed

theorem remove_before_upgrade_witness:
  "(\<exists>rest. fst (exec example_time quiet_run example_tree)
             = Rmtree ''big'' # Run [''mrepo'', ''upgrade'', ''--pretty''] # rest) \<and>
   ''big'' \<in> set (removed example_tree) \<and> ''small'' \<notin> set (removed example_tree)"
proof -
  from remove_before_upgrade[of example_time quiet_run example_tree]
  have "\<exists>rest. fst (exec example_time quiet_run example_tree)
           = map Rmtree (removed example_tree) @ Run [''mrepo'', ''upgrade'', ''--pretty''] # rest"
    by blast
  then show ?thesis by (simp add: example_removed)
qed

text \<open>
  C10. A directory whose name starts with a dot is never removed, whatever it holds; nor
  is an entry of \<open>modules\<close> that is no directory; nor is a directory all of whose own
  entries named \<open>*.zip\<close> are under the limit, whatever the sizes of its other entries and
  whatever its subdirectories hold.
\<close>

theorem remove_scope:
  "(\<forall>nm. nm \<noteq> [] \<and> hd nm = CHR ''.'' \<longrightarrow> nm \<notin> set (removed t)) \<and>
   (\<forall>nm. (\<forall>d. (nm, d) \<in> set (entries_of (modules_dir t)) \<longrightarrow> \<not> is_dir d)
          \<longrightarrow> nm \<notin> set (removed t)) \<and>
   (\<forall>nm. (\<forall>d. (nm, d) \<in> set (entries_of (modules_dir t)) \<longrightarrow>
              (\<forall>f\<in>set (entries_of d). suffix ''.zip'' (fst f) \<longrightarrow>
                                       st_size (snd f) < GITHUB_MAX_SIZE))
          \<longrightarrow> nm \<notin> set (removed t))"
proof (intro conjI allI impI)
  fix nm
  assume "nm \<noteq> [] \<and> hd nm = CHR ''.''"
  then show "nm \<notin> set (removed t)" by (simp add: removed_iff)
next
  fix nm
  assume "\<forall>d. (nm, d) \<in> set (entries_of (modules_dir t)) \<longrightarrow> \<not> is_dir d"
  then show "nm \<notin> set (removed t)" by (auto simp: removed_iff)
next
  fix nm
  assume h: "\<forall>d. (nm, d) \<in> set (entries_of (modules_dir t)) \<longrightarrow>
              (\<forall>f\<in>set (entries_of d). suffix ''.zip'' (fst f) \<longrightarrow>
                                       st_size (snd f) < GITHUB_MAX_SIZE)"
  show "nm \<notin> set (removed t)"
  proof
    assume "nm \<in> set (removed t)"
    then obtain d where d: "(nm, d) \<in> set (entries_of (modules_dir t))" and "skip_it d"
      using removed_iff by blast
    then obtain f where f: "f \<in> set (entries_of d)" "suffix ''.zip'' (fst f)"
      and big: "GITHUB_MAX_SIZE \<le> st_size (snd f)"
      using skip_it_iff by blast
    from h d f have "st_size (snd f) < GITHUB_MAX_SIZE" by blast
    with big show False by simp
  qed
qed

theorem remove_scope_witness:
  "hd ''.cache'' = CHR ''.'' \<and> ''.cache'' \<notin> set (removed example_tree) \<and>
   map_of (entries_of (modules_dir example_tree)) ''stray.zip'' = Some (File 60000000) \<and>
   ''stray.zip'' \<notin> set (removed example_tree) \<and>
   map_of (entries_of (modules_dir example_tree)) ''small''
     = Some (Dir 4096 [(''small-v1.zip'', File 52428799),
                       (''assets.bin'', File 99999999999),
                       (''old'', Dir 4096 [(''old-v0.zip'', File 60000000)])]) \<and>
   ''small'' \<notin> set (removed example_tree)"
proof -
  have a: "\<forall>d. (''stray.zip'', d) \<in> set (entries_of (modules_dir example_tree)) \<longrightarrow> \<not> is_dir d"
    by (simp add: example_tree_def)
  have b: "\<forall>d. (''small'', d) \<in> set (entries_of (modules_dir example_tree)) \<longrightarrow>
      (\<forall>f\<in>set (entries_of d). suffix ''.zip'' (fst f) \<longrightarrow> st_size (snd f) < GITHUB_MAX_SIZE)"
    by (simp add: example_tree_def GITHUB_MAX_SIZE_def suffix_def)
  have c: "''.cache'' \<noteq> [] \<and> hd ''.cache'' = CHR ''.''" by simp
  from remove_scope[of example_tree] a b c
  have "''.cache'' \<notin> set (removed example_tree) \<and> ''stray.zip'' \<notin> set (removed example_tree) \<and>
        ''small'' \<notin> set (removed example_tree)"
    by blast
  then show ?thesis by (simp add: example_tree_def)
qed




end
